theory Spec2Isabelle
  imports Complex_Main
begin

section \<open>Values of the host language\<close>

text \<open>
  An awaited promise either rejects (the \<open>await\<close> throws) or resolves to a value.
\<close>

datatype 'a promise = Rejected | Resolved 'a

text \<open>
  A JavaScript number: a finite double denotes a real number; the three other values are
  kept apart. Only the comparison \<open>value < c\<close> against a finite literal is used by the
  code: it is exact on finite values, true for \<open>-Infinity\<close>, and false for \<open>Infinity\<close> and
  \<open>NaN\<close>.
\<close>

datatype number = Finite real | PosInfinity | NegInfinity | NaN

fun js_less :: "number \<Rightarrow> real \<Rightarrow> bool" where
  "js_less (Finite x) c = (x < c)"
| "js_less NegInfinity c = True"
| "js_less PosInfinity c = False"
| "js_less NaN c = False"

text \<open>Truthiness of a \<open>string | null\<close>: \<open>null\<close> and the empty string are falsy.\<close>

fun truthy :: "string option \<Rightarrow> bool" where
  "truthy None = False"
| "truthy (Some s) = (s \<noteq> [])"

section \<open>AuthContext.tsx: the session provider\<close>

text \<open>
  The provider's user object, as far as the code reads it: \<open>email\<close> is \<open>string | null\<close>,
  \<open>getIdToken()\<close> is a promise of a string.
\<close>

record user =
  uid :: string
  email :: "string option"
  getIdToken :: "string promise"

definition MODERATOR_EMAILS :: "string list" where
  "MODERATOR_EMAILS = [''akhyarahmad919@gmail.com'', ''ansuthisis789@gmail.com'']"

text \<open>The three \<open>useState\<close> cells of \<open>AuthProvider\<close>.\<close>

record auth_state =
  currentUser :: "user option"
  loading :: bool
  isModerator :: bool

text \<open>\<open>useState(null)\<close>, \<open>useState(true)\<close>, \<open>useState(false)\<close>.\<close>

definition initial_auth_state :: auth_state where
  "initial_auth_state = \<lparr>currentUser = None, loading = True, isModerator = False\<rparr>"

text \<open>
  The condition \<open>user && user.email && MODERATOR_EMAILS.includes(user.email)\<close>;
  \<open>includes\<close> compares strings by exact equality.
\<close>

fun moderator_check :: "user option \<Rightarrow> bool" where
  "moderator_check None = False"
| "moderator_check (Some u) =
     (case email u of
        None \<Rightarrow> False
      | Some e \<Rightarrow> truthy (Some e) \<and> e \<in> set MODERATOR_EMAILS)"

text \<open>
  The callback registered with \<open>onAuthStateChanged\<close>: \<open>setCurrentUser(user)\<close>, then
  \<open>setIsModerator\<close> by the check, then \<open>setLoading(false)\<close>. One call of the callback is
  one step of the state.
\<close>

definition onAuthStateChanged :: "user option \<Rightarrow> auth_state \<Rightarrow> auth_state" where
  "onAuthStateChanged usr s =
     (let s1 = s\<lparr>currentUser := usr\<rparr>;
          s2 = (if moderator_check usr then s1\<lparr>isModerator := True\<rparr>
                else s1\<lparr>isModerator := False\<rparr>)
      in s2\<lparr>loading := False\<rparr>)"

text \<open>The state after a sequence of notifications, delivered in order.\<close>

fun notify :: "auth_state \<Rightarrow> user option list \<Rightarrow> auth_state" where
  "notify s [] = s"
| "notify s (n # ns) = notify (onAuthStateChanged n s) ns"

text \<open>Every state the provider publishes: the start state and the one after each notification.\<close>

fun published :: "auth_state \<Rightarrow> user option list \<Rightarrow> auth_state list" where
  "published s [] = [s]"
| "published s (n # ns) = s # published (onAuthStateChanged n s) ns"

text \<open>\<open>getToken\<close>: reads the provider's own current user, not the state cell.\<close>

definition getToken :: "user option \<Rightarrow> string option promise" where
  "getToken auth_currentUser =
     (case auth_currentUser of
        Some u \<Rightarrow> (case getIdToken u of
                     Rejected \<Rightarrow> Rejected
                   | Resolved t \<Rightarrow> Resolved (Some t))
      | None \<Rightarrow> Resolved None)"

text \<open>
  Case folding of ASCII letters, to speak about addresses that differ from an allowlist
  entry in case only.
\<close>

definition ascii_lower :: "char \<Rightarrow> char" where
  "ascii_lower c =
     (if 65 \<le> (of_char c :: nat) \<and> (of_char c :: nat) \<le> 90
      then char_of ((of_char c :: nat) + 32) else c)"

text \<open>The identity is absent: no user, or a user that carries no email.\<close>

fun identity_absent :: "user option \<Rightarrow> bool" where
  "identity_absent None = True"
| "identity_absent (Some u) = (\<not> truthy (email u))"

section \<open>ModeratorDashboard: severity classes of a gauge\<close>

record SystemStats =
  cpu_usage :: number
  gpu_usage :: number
  ram_usage :: number
  storage_usage :: number
  avg_response_time :: number

text \<open>\<open>getColorClasses\<close> of the reduced (two-resource) dashboard.\<close>

definition getColorClasses :: "number \<Rightarrow> string \<Rightarrow> string" where
  "getColorClasses v unit =
     (if unit = ''ms'' then
        (if js_less v 350 then ''text-green-400 bg-green-900/20''
         else if js_less v 400 then ''text-yellow-400 bg-yellow-900/20''
         else ''text-red-400 bg-red-900/20'')
      else if js_less v 60 then ''text-green-400 bg-green-900/20''
      else if js_less v 80 then ''text-yellow-400 bg-yellow-900/20''
      else ''text-red-400 bg-red-900/20'')"

text \<open>\<open>getColorClasses\<close> of the extended (four-resource) dashboard.\<close>

definition getColorClasses_ext :: "number \<Rightarrow> string \<Rightarrow> string" where
  "getColorClasses_ext v unit =
     (if unit = ''ms'' then
        (if js_less v 150 then ''text-green-400 bg-green-900/20''
         else if js_less v 250 then ''text-yellow-400 bg-yellow-900/20''
         else ''text-red-400 bg-red-900/20'')
      else if js_less v 60 then ''text-green-400 bg-green-900/20''
      else if js_less v 80 then ''text-yellow-400 bg-yellow-900/20''
      else ''text-red-400 bg-red-900/20'')"

text \<open>
  The array of cards both dashboards render from the stats: label, value and unit of each
  gauge (icon and colour name play no part in the classification).
\<close>

definition stat_cards :: "SystemStats \<Rightarrow> (string \<times> number \<times> string) list" where
  "stat_cards st =
     [(''CPU Usage'', cpu_usage st, ''%''),
      (''GPU Usage'', gpu_usage st, ''%''),
      (''RAM Usage'', ram_usage st, ''%''),
      (''Storage'', storage_usage st, ''%''),
      (''Avg Response'', avg_response_time st, ''ms'')]"

text \<open>The \<open>map\<close> over the cards: the classes computed for each card, in order.\<close>

definition card_classes :: "SystemStats \<Rightarrow> string list" where
  "card_classes st = map (\<lambda>(label, v, unit). getColorClasses v unit) (stat_cards st)"

definition card_classes_ext :: "SystemStats \<Rightarrow> string list" where
  "card_classes_ext st = map (\<lambda>(label, v, unit). getColorClasses_ext v unit) (stat_cards st)"

subsection \<open>The specification's severity tiers\<close>

text \<open>
  The specification names three tiers and gives the rule with two breakpoints as
  parameters; the code shows a tier as a pair of colour classes (green, yellow, red).
\<close>

datatype SeverityTier = nominal | elevated | critical

definition spec_tier :: "real \<Rightarrow> real \<Rightarrow> real \<Rightarrow> SeverityTier" where
  "spec_tier lo hi v = (if v < lo then nominal else if v < hi then elevated else critical)"

fun tier_classes :: "SeverityTier \<Rightarrow> string" where
  "tier_classes nominal = ''text-green-400 bg-green-900/20''"
| "tier_classes elevated = ''text-yellow-400 bg-yellow-900/20''"
| "tier_classes critical = ''text-red-400 bg-red-900/20''"

section \<open>ModeratorDashboard: one load cycle\<close>

text \<open>
  A \<open>Response\<close> as far as the code reads it: the status, and the promise \<open>json()\<close> of the
  parsed body. \<open>ok\<close> is the Fetch API's flag: the status is in the range 200 to 299.
\<close>

record 'j response =
  status :: nat
  json :: "'j promise"

definition ok :: "'j response \<Rightarrow> bool" where
  "ok r = (200 \<le> status r \<and> status r \<le> 299)"

text \<open>\<open>[401, 403].includes(response.status)\<close>\<close>

definition unauthorized :: "'j response \<Rightarrow> bool" where
  "unauthorized r = (status r \<in> set [401, 403])"

text \<open>What a cycle can throw into its \<open>catch\<close> block.\<close>

datatype thrown = TokenRejection | FetchRejection | HttpError nat | JsonRejection

text \<open>How a block of statements ends: it runs to its end, returns early, or throws.\<close>

datatype completion = Completed | Returned | Threw thrown

text \<open>
  What a cycle does to the world, in order: the setters of the state cells of both
  dashboards, and the calls of \<open>navigate\<close>, \<open>fetch\<close> (URL and \<open>Authorization\<close> header)
  and \<open>console.error\<close>.
\<close>

datatype 'j effect =
    SetLoading bool
  | SetError string
  | SetUsersData 'j
  | SetUsers 'j
  | SetSessions 'j
  | SetDocuments 'j
  | SetStats 'j
  | SetLastUpdated nat
  | Navigate string
  | Fetch string string
  | ConsoleError thrown

text \<open>
  What a cycle reads from the world: the provider's current user (for \<open>getToken\<close>),
  the settled result of a \<open>fetch\<close> of a URL with a header, and the clock read by
  \<open>new Date()\<close>.
\<close>

record 'j env =
  auth_currentUser :: "user option"
  fetch :: "string \<Rightarrow> string \<Rightarrow> 'j response promise"
  now :: nat

definition API_BASE_URL :: string where
  "API_BASE_URL = ''https://akhyar919-documind.hf.space''"

definition users_url :: string where
  "users_url = API_BASE_URL @ ''/moderator/users''"

definition sessions_url :: string where
  "sessions_url = API_BASE_URL @ ''/moderator/sessions''"

definition documents_url :: string where
  "documents_url = API_BASE_URL @ ''/moderator/documents''"

definition stats_url :: string where
  "stats_url = API_BASE_URL @ ''/moderator/stats''"

definition bearer :: "string \<Rightarrow> string" where
  "bearer token = ''Bearer '' @ token"

definition failure_message :: string where
  "failure_message =
     ''Failed to load moderator data. The server might be unavailable or you may not have access.''"

text \<open>\<open>await Promise.all([p, q])\<close>: rejects as soon as one of the two rejects.\<close>

fun promise_all2 :: "'a promise \<Rightarrow> 'b promise \<Rightarrow> ('a \<times> 'b) promise" where
  "promise_all2 (Resolved a) (Resolved b) = Resolved (a, b)"
| "promise_all2 _ _ = Rejected"

text \<open>
  The loop over the responses, in the order of the array: a 401 or 403 redirects and
  returns, any other status outside 200 to 299 throws, a success goes on to the next response.
\<close>

fun check_responses :: "'j response list \<Rightarrow> 'j effect list \<times> completion" where
  "check_responses [] = ([], Completed)"
| "check_responses (r # rs) =
     (if unauthorized r then ([Navigate ''/documind''], Returned)
      else if \<not> ok r then ([], Threw (HttpError (status r)))
      else check_responses rs)"

subsection \<open>The reduced dashboard (users, stats)\<close>

record 'j dashboard =
  usersData :: "'j option"
  stats :: "'j option"
  loading_d :: bool
  lastUpdated :: "nat option"
  error :: string

definition initial_dashboard :: "'j dashboard" where
  "initial_dashboard =
     \<lparr>usersData = None, stats = None, loading_d = True, lastUpdated = None, error = []\<rparr>"

text \<open>The \<open>try\<close> block: the effects it performs and how it ends.\<close>

definition try_block :: "'j env \<Rightarrow> 'j effect list \<times> completion" where
  "try_block env =
     (let pre = [SetLoading True, SetError []] in
      case getToken (auth_currentUser env) of
        Rejected \<Rightarrow> (pre, Threw TokenRejection)
      | Resolved token \<Rightarrow>
          (case token of
             None \<Rightarrow> (pre @ [Navigate ''/login''], Returned)
           | Some t \<Rightarrow>
               if \<not> truthy (Some t) then (pre @ [Navigate ''/login''], Returned)
               else
                 let started = pre @ [Fetch users_url (bearer t), Fetch stats_url (bearer t)] in
                 (case promise_all2 (fetch env users_url (bearer t))
                                    (fetch env stats_url (bearer t)) of
                    Rejected \<Rightarrow> (started, Threw FetchRejection)
                  | Resolved (usersResponse, statsResponse) \<Rightarrow>
                      (case check_responses [usersResponse, statsResponse] of
                         (effs, Completed) \<Rightarrow>
                           (case promise_all2 (json usersResponse) (json statsResponse) of
                              Rejected \<Rightarrow> (started, Threw JsonRejection)
                            | Resolved (usersDataResult, statsData) \<Rightarrow>
                                (started @ effs @
                                   [SetUsersData usersDataResult, SetStats statsData,
                                    SetLastUpdated (now env)],
                                 Completed))
                       | (effs, c) \<Rightarrow> (started @ effs, c)))))"

text \<open>\<open>try\<close>, then \<open>catch\<close> when the block threw, then \<open>finally\<close> in every case.\<close>

definition loadDashboardData :: "'j env \<Rightarrow> 'j effect list" where
  "loadDashboardData env =
     (case try_block env of
        (effs, Threw e) \<Rightarrow> effs @ [ConsoleError e, SetError failure_message] @ [SetLoading False]
      | (effs, _) \<Rightarrow> effs @ [SetLoading False])"

fun apply_effect :: "'j dashboard \<Rightarrow> 'j effect \<Rightarrow> 'j dashboard" where
  "apply_effect s (SetLoading b) = s\<lparr>loading_d := b\<rparr>"
| "apply_effect s (SetError m) = s\<lparr>error := m\<rparr>"
| "apply_effect s (SetUsersData d) = s\<lparr>usersData := Some d\<rparr>"
| "apply_effect s (SetStats d) = s\<lparr>stats := Some d\<rparr>"
| "apply_effect s (SetLastUpdated t) = s\<lparr>lastUpdated := Some t\<rparr>"
| "apply_effect s _ = s"

text \<open>The component state after a sequence of effects.\<close>

fun run :: "'j dashboard \<Rightarrow> 'j effect list \<Rightarrow> 'j dashboard" where
  "run s [] = s"
| "run s (e # es) = run (apply_effect s e) es"

subsection \<open>The extended dashboard (users, sessions, documents, stats)\<close>

record 'j dashboard_ext =
  users :: 'j
  sessions :: 'j
  documents :: 'j
  stats_x :: "'j option"
  loading_x :: bool
  lastUpdated_x :: "nat option"
  error_x :: string

definition try_block_ext :: "'j env \<Rightarrow> 'j effect list \<times> completion" where
  "try_block_ext env =
     (let pre = [SetLoading True, SetError []] in
      case getToken (auth_currentUser env) of
        Rejected \<Rightarrow> (pre, Threw TokenRejection)
      | Resolved token \<Rightarrow>
          (case token of
             None \<Rightarrow> (pre @ [Navigate ''/login''], Returned)
           | Some t \<Rightarrow>
               if \<not> truthy (Some t) then (pre @ [Navigate ''/login''], Returned)
               else
                 let started = pre @ [Fetch users_url (bearer t), Fetch sessions_url (bearer t),
                                      Fetch documents_url (bearer t), Fetch stats_url (bearer t)] in
                 (case promise_all2 (fetch env users_url (bearer t))
                        (promise_all2 (fetch env sessions_url (bearer t))
                           (promise_all2 (fetch env documents_url (bearer t))
                                         (fetch env stats_url (bearer t)))) of
                    Rejected \<Rightarrow> (started, Threw FetchRejection)
                  | Resolved (usersResponse, sessionsResponse, docsResponse, statsResponse) \<Rightarrow>
                      (case check_responses
                              [usersResponse, sessionsResponse, docsResponse, statsResponse] of
                         (effs, Completed) \<Rightarrow>
                           (case promise_all2 (json usersResponse)
                                   (promise_all2 (json sessionsResponse)
                                      (promise_all2 (json docsResponse) (json statsResponse))) of
                              Rejected \<Rightarrow> (started, Threw JsonRejection)
                            | Resolved (usersData', sessionsData', docsData', statsData') \<Rightarrow>
                                (started @ effs @
                                   [SetUsers usersData', SetSessions sessionsData',
                                    SetDocuments docsData', SetStats statsData',
                                    SetLastUpdated (now env)],
                                 Completed))
                       | (effs, c) \<Rightarrow> (started @ effs, c)))))"

definition loadDashboardData_ext :: "'j env \<Rightarrow> 'j effect list" where
  "loadDashboardData_ext env =
     (case try_block_ext env of
        (effs, Threw e) \<Rightarrow> effs @ [ConsoleError e, SetError failure_message] @ [SetLoading False]
      | (effs, _) \<Rightarrow> effs @ [SetLoading False])"

fun apply_effect_ext :: "'j dashboard_ext \<Rightarrow> 'j effect \<Rightarrow> 'j dashboard_ext" where
  "apply_effect_ext s (SetLoading b) = s\<lparr>loading_x := b\<rparr>"
| "apply_effect_ext s (SetError m) = s\<lparr>error_x := m\<rparr>"
| "apply_effect_ext s (SetUsers d) = s\<lparr>users := d\<rparr>"
| "apply_effect_ext s (SetSessions d) = s\<lparr>sessions := d\<rparr>"
| "apply_effect_ext s (SetDocuments d) = s\<lparr>documents := d\<rparr>"
| "apply_effect_ext s (SetStats d) = s\<lparr>stats_x := Some d\<rparr>"
| "apply_effect_ext s (SetLastUpdated t) = s\<lparr>lastUpdated_x := Some t\<rparr>"
| "apply_effect_ext s _ = s"

fun run_ext :: "'j dashboard_ext \<Rightarrow> 'j effect list \<Rightarrow> 'j dashboard_ext" where
  "run_ext s [] = s"
| "run_ext s (e # es) = run_ext (apply_effect_ext s e) es"

subsection \<open>Outcomes and requests of a cycle\<close>

text \<open>
  The specification's four outcomes, read off the effects: the redirect to the sign-in
  page, the redirect away from the moderator page, the error message set by the \<open>catch\<close>
  block, and the stamp that completes a new snapshot.
\<close>

datatype outcome = Unauthenticated | Unauthorized | RemoteError | SnapshotReplaced

fun signal :: "'j effect \<Rightarrow> outcome list" where
  "signal (Navigate path) =
     (if path = ''/login'' then [Unauthenticated]
      else if path = ''/documind'' then [Unauthorized] else [])"
| "signal (SetError m) = (if m = [] then [] else [RemoteError])"
| "signal (SetLastUpdated t) = [SnapshotReplaced]"
| "signal _ = []"

fun outcomes :: "'j effect list \<Rightarrow> outcome list" where
  "outcomes [] = []"
| "outcomes (e # es) = signal e @ outcomes es"

text \<open>The network requests among the effects.\<close>

fun requests :: "'j effect list \<Rightarrow> (string \<times> string) list" where
  "requests [] = []"
| "requests (Fetch url h # es) = (url, h) # requests es"
| "requests (_ # es) = requests es"

subsection \<open>Sample worlds\<close>

definition moderator_user :: user where
  "moderator_user =
     \<lparr>uid = ''u1'', email = Some ''akhyarahmad919@gmail.com'', getIdToken = Resolved ''tok''\<rparr>"

definition shouting_user :: user where
  "shouting_user =
     \<lparr>uid = ''u2'', email = Some ''Akhyarahmad919@gmail.com'', getIdToken = Resolved ''tok''\<rparr>"

definition other_user :: user where
  "other_user =
     \<lparr>uid = ''u3'', email = Some ''someone@example.com'', getIdToken = Resolved ''tok''\<rparr>"

definition answer :: "nat \<Rightarrow> nat promise \<Rightarrow> nat response promise" where
  "answer st body = Resolved \<lparr>status = st, json = body\<rparr>"

text \<open>No user is signed in; the network is never reached.\<close>

definition no_network :: "string \<Rightarrow> string \<Rightarrow> nat response promise" where
  "no_network url h = Rejected"

definition env_signed_out :: "nat env" where
  "env_signed_out = \<lparr>auth_currentUser = None, fetch = no_network, now = 7\<rparr>"

text \<open>The users endpoint answers 500, every other endpoint 401.\<close>

definition fetch_500_then_401 :: "string \<Rightarrow> string \<Rightarrow> nat response promise" where
  "fetch_500_then_401 url h =
     (if url = users_url then answer 500 (Resolved 0) else answer 401 (Resolved 0))"

definition env_500_then_401 :: "nat env" where
  "env_500_then_401 =
     \<lparr>auth_currentUser = Some moderator_user, fetch = fetch_500_then_401, now = 7\<rparr>"

text \<open>The users endpoint answers 200, every other endpoint 403.\<close>

definition fetch_200_then_403 :: "string \<Rightarrow> string \<Rightarrow> nat response promise" where
  "fetch_200_then_403 url h =
     (if url = users_url then answer 200 (Resolved 1) else answer 403 (Resolved 0))"

definition env_200_then_403 :: "nat env" where
  "env_200_then_403 =
     \<lparr>auth_currentUser = Some moderator_user, fetch = fetch_200_then_403, now = 7\<rparr>"

text \<open>Every endpoint answers 200; the body of the users endpoint is 1, of the others 2.\<close>

definition fetch_all_200 :: "string \<Rightarrow> string \<Rightarrow> nat response promise" where
  "fetch_all_200 url h =
     (if url = users_url then answer 200 (Resolved 1) else answer 200 (Resolved 2))"

definition env_all_200 :: "nat env" where
  "env_all_200 = \<lparr>auth_currentUser = Some moderator_user, fetch = fetch_all_200, now = 7\<rparr>"

text \<open>Every endpoint answers 200, but the body of the stats endpoint does not parse.\<close>

definition fetch_bad_body :: "string \<Rightarrow> string \<Rightarrow> nat response promise" where
  "fetch_bad_body url h =
     (if url = stats_url then answer 200 Rejected else answer 200 (Resolved 1))"

definition env_bad_body :: "nat env" where
  "env_bad_body = \<lparr>auth_currentUser = Some moderator_user, fetch = fetch_bad_body, now = 7\<rparr>"

text \<open>A state left by an earlier successful cycle.\<close>

definition earlier_dashboard :: "nat dashboard" where
  "earlier_dashboard =
     \<lparr>usersData = Some 5, stats = Some 6, loading_d = False, lastUpdated = Some 3, error = []\<rparr>"

definition earlier_dashboard_ext :: "nat dashboard_ext" where
  "earlier_dashboard_ext =
     \<lparr>users = 5, sessions = 8, documents = 9, stats_x = Some 6, loading_x = False,
      lastUpdated_x = Some 3, error_x = []\<rparr>"

definition sample_stats :: SystemStats where
  "sample_stats =
     \<lparr>cpu_usage = Finite 85, gpu_usage = Finite 60, ram_usage = Finite (599 / 10),
      storage_usage = Finite (799 / 10), avg_response_time = Finite 200\<rparr>"

section \<open>Properties of the session provider\<close>

lemma onAuth_loading: "loading (onAuthStateChanged n s) = False"
  by (simp add: onAuthStateChanged_def Let_def)

lemma onAuth_isModerator: "isModerator (onAuthStateChanged n s) = moderator_check n"
  by (simp add: onAuthStateChanged_def Let_def)

lemma onAuth_currentUser: "currentUser (onAuthStateChanged n s) = n"
  by (simp add: onAuthStateChanged_def Let_def)

lemma empty_not_moderator: "[] \<notin> set MODERATOR_EMAILS"
  by (simp add: MODERATOR_EMAILS_def)

lemma lower_fixed: "e \<in> set MODERATOR_EMAILS \<Longrightarrow> map ascii_lower e = e"
  by (auto simp add: MODERATOR_EMAILS_def ascii_lower_def)

lemma isModerator_iff:
  "isModerator (onAuthStateChanged (Some u) s)
     \<longleftrightarrow> (\<exists>e. email u = Some e \<and> e \<in> set MODERATOR_EMAILS)"
  using empty_not_moderator by (auto simp add: onAuth_isModerator split: option.splits)

text \<open>
  Claim C3. After a notification that carries a user, \<open>isModerator\<close> holds exactly when the
  user's email is, as the very same string, an entry of the allowlist; the allowlist
  contains \<open>akhyarahmad919@gmail.com\<close>; and an email that differs from an entry only in the
  case of its letters does not give \<open>isModerator\<close>.
\<close>

theorem role_derivation:
  "(isModerator (onAuthStateChanged (Some u) s)
      \<longleftrightarrow> (\<exists>e. email u = Some e \<and> e \<in> set MODERATOR_EMAILS))
   \<and> ''akhyarahmad919@gmail.com'' \<in> set MODERATOR_EMAILS
   \<and> (\<forall>e e'. email u = Some e \<and> e' \<in> set MODERATOR_EMAILS \<and> e \<noteq> e'
              \<and> map ascii_lower e = map ascii_lower e'
        \<longrightarrow> \<not> isModerator (onAuthStateChanged (Some u) s))"
proof (intro conjI allI impI)
  show "isModerator (onAuthStateChanged (Some u) s)
          \<longleftrightarrow> (\<exists>e. email u = Some e \<and> e \<in> set MODERATOR_EMAILS)"
    by (rule isModerator_iff)
next
  show "''akhyarahmad919@gmail.com'' \<in> set MODERATOR_EMAILS"
    by (simp add: MODERATOR_EMAILS_def)
next
  fix e e'
  assume h: "email u = Some e \<and> e' \<in> set MODERATOR_EMAILS \<and> e \<noteq> e'
               \<and> map ascii_lower e = map ascii_lower e'"
  show "\<not> isModerator (onAuthStateChanged (Some u) s)"
  proof
    assume "isModerator (onAuthStateChanged (Some u) s)"
    with h have "e \<in> set MODERATOR_EMAILS" unfolding isModerator_iff by auto
    then have a: "e = map ascii_lower e" by (rule lower_fixed [symmetric])
    from h have b: "map ascii_lower e' = e'" by (blast intro: lower_fixed)
    from h have c: "map ascii_lower e = map ascii_lower e'" by blast
    from a c b have "e = e'" by (rule trans [OF trans])
    with h show False by blast
  qed
qed

theorem role_derivation_witness:
  "isModerator (onAuthStateChanged (Some moderator_user) initial_auth_state)
   \<and> email shouting_user = Some ''Akhyarahmad919@gmail.com''
   \<and> ''akhyarahmad919@gmail.com'' \<in> set MODERATOR_EMAILS
   \<and> ''Akhyarahmad919@gmail.com'' \<noteq> ''akhyarahmad919@gmail.com''
   \<and> map ascii_lower ''Akhyarahmad919@gmail.com'' = map ascii_lower ''akhyarahmad919@gmail.com''
   \<and> \<not> isModerator (onAuthStateChanged (Some shouting_user) initial_auth_state)
   \<and> \<not> isModerator (onAuthStateChanged (Some other_user) initial_auth_state)"
proof -
  have folded: "map ascii_lower ''Akhyarahmad919@gmail.com''
                  = map ascii_lower ''akhyarahmad919@gmail.com''"
    by code_simp
  have listed: "''akhyarahmad919@gmail.com'' \<in> set MODERATOR_EMAILS"
    by (simp add: MODERATOR_EMAILS_def)
  have mail: "email shouting_user = Some ''Akhyarahmad919@gmail.com''"
    by (simp add: shouting_user_def)
  have differs: "''Akhyarahmad919@gmail.com'' \<noteq> ''akhyarahmad919@gmail.com''"
    by simp
  from role_derivation [of shouting_user initial_auth_state] mail listed differs folded
  have shouting: "\<not> isModerator (onAuthStateChanged (Some shouting_user) initial_auth_state)"
    by blast
  from role_derivation [of moderator_user initial_auth_state]
  have moderator: "isModerator (onAuthStateChanged (Some moderator_user) initial_auth_state)"
    by (simp add: MODERATOR_EMAILS_def moderator_user_def)
  from role_derivation [of other_user initial_auth_state]
  have other: "\<not> isModerator (onAuthStateChanged (Some other_user) initial_auth_state)"
    by (simp add: MODERATOR_EMAILS_def other_user_def)
  from folded listed mail differs shouting moderator other show ?thesis
    by blast
qed

lemma published_loading_false:
  "loading s = False \<Longrightarrow> map loading (published s ns) = replicate (Suc (length ns)) False"
  by (induction ns arbitrary: s) (simp_all add: onAuth_loading)

text \<open>
  Claim C8. The \<open>loading\<close> flag of the provider, over the states it publishes: true in the
  start state, false after the first notification and after every later one. So it turns
  from true to false once, and never from false to true.
\<close>

theorem loading_monotone:
  "map loading (published initial_auth_state ns) = True # replicate (length ns) False"
proof (cases ns)
  case Nil
  then show ?thesis by (simp add: initial_auth_state_def)
next
  case (Cons n rest)
  have "map loading (published (onAuthStateChanged n initial_auth_state) rest)
        = replicate (Suc (length rest)) False"
    by (rule published_loading_false) (rule onAuth_loading)
  with Cons show ?thesis by (simp add: initial_auth_state_def)
qed

theorem loading_monotone_witness:
  "map loading (published initial_auth_state [None, Some moderator_user, None])
     = [True, False, False, False]"
  using loading_monotone [of "[None, Some moderator_user, None]"]
  by (simp add: numeral_3_eq_3)

lemma notify_absent:
  "identity_absent (currentUser s) \<longrightarrow> \<not> isModerator s \<Longrightarrow>
   identity_absent (currentUser (notify s ns)) \<longrightarrow> \<not> isModerator (notify s ns)"
proof (induction ns arbitrary: s)
  case Nil
  then show ?case by simp
next
  case (Cons n ns)
  have "identity_absent (currentUser (onAuthStateChanged n s))
          \<longrightarrow> \<not> isModerator (onAuthStateChanged n s)"
    by (cases n) (auto simp add: onAuth_isModerator onAuth_currentUser split: option.splits)
  then show ?case using Cons.IH by simp
qed

text \<open>
  Claim C9. In the start state and in the state after any sequence of notifications: when
  the identity is absent (no current user, or a user without an email), \<open>isModerator\<close> is
  false.
\<close>

theorem absent_identity_not_moderator:
  "identity_absent (currentUser (notify initial_auth_state ns))
     \<Longrightarrow> \<not> isModerator (notify initial_auth_state ns)"
  using notify_absent [of initial_auth_state ns] by (simp add: initial_auth_state_def)

theorem absent_identity_not_moderator_witness:
  "identity_absent (currentUser (notify initial_auth_state [Some moderator_user, None]))
   \<and> \<not> isModerator (notify initial_auth_state [Some moderator_user, None])"
  using absent_identity_not_moderator [of "[Some moderator_user, None]"]
  by (simp add: onAuth_currentUser)

section \<open>Properties of the severity classes\<close>

text \<open>
  Claim C4. For a value between 0 and 100 and the unit \<open>%\<close>, the classes are those of
  nominal below 60, of elevated from 60 to below 80, and of critical from 80 on; 59.9 is
  nominal, 60 elevated, 79.9 elevated and 80 critical; and the four percentage gauges
  (CPU, GPU, RAM, storage) are the cards classified with the unit \<open>%\<close>.
\<close>

theorem percentage_classification:
  "(0 \<le> v \<and> v \<le> 100 \<longrightarrow>
       getColorClasses (Finite v) ''%'' =
         tier_classes (if v < 60 then nominal else if v < 80 then elevated else critical))
   \<and> getColorClasses (Finite (599 / 10)) ''%'' = tier_classes nominal
   \<and> getColorClasses (Finite 60) ''%'' = tier_classes elevated
   \<and> getColorClasses (Finite (799 / 10)) ''%'' = tier_classes elevated
   \<and> getColorClasses (Finite 80) ''%'' = tier_classes critical
   \<and> take 4 (card_classes st) =
       map (\<lambda>g. getColorClasses g ''%'')
         [cpu_usage st, gpu_usage st, ram_usage st, storage_usage st]"
  by (simp add: getColorClasses_def card_classes_def stat_cards_def)

theorem percentage_classification_witness:
  "(0::real) \<le> 85 \<and> (85::real) \<le> 100
   \<and> getColorClasses (Finite 85) ''%'' = ''text-red-400 bg-red-900/20''
   \<and> take 4 (card_classes sample_stats) =
       [''text-red-400 bg-red-900/20'', ''text-yellow-400 bg-yellow-900/20'',
        ''text-green-400 bg-green-900/20'', ''text-yellow-400 bg-yellow-900/20'']"
  using percentage_classification [of 85 sample_stats]
  by (simp add: sample_stats_def getColorClasses_def)

text \<open>
  Claim C10. For every unit other than \<open>ms\<close>, in particular \<open>%\<close>, and every value, the two
  dashboards compute the same classes; they differ exactly for the unit \<open>ms\<close> and a finite
  value from 150 to below 400. So the cards of the four percentage gauges get the same
  classes in both dashboards.
\<close>

theorem variants_agree_on_percent:
  "getColorClasses v ''%'' = getColorClasses_ext v ''%''
   \<and> (unit \<noteq> ''ms'' \<longrightarrow> getColorClasses v unit = getColorClasses_ext v unit)
   \<and> (getColorClasses v unit \<noteq> getColorClasses_ext v unit
        \<longleftrightarrow> unit = ''ms'' \<and> (\<exists>x. v = Finite x \<and> 150 \<le> x \<and> x < 400))
   \<and> take 4 (card_classes st) = take 4 (card_classes_ext st)"
proof -
  have cards: "take 4 (card_classes st) = take 4 (card_classes_ext st)"
    by (simp add: card_classes_def card_classes_ext_def stat_cards_def
          getColorClasses_def getColorClasses_ext_def)
  show ?thesis
    using cards by (cases v) (auto simp add: getColorClasses_def getColorClasses_ext_def)
qed

theorem variants_agree_on_percent_witness:
  "getColorClasses (Finite 70) ''%'' = getColorClasses_ext (Finite 70) ''%''
   \<and> getColorClasses (Finite 200) ''ms'' \<noteq> getColorClasses_ext (Finite 200) ''ms''"
  using variants_agree_on_percent [of "Finite 70" "''%''" sample_stats]
        variants_agree_on_percent [of "Finite 200" "''ms''" sample_stats]
  by simp

text \<open>
  Claim C2, as stated, fails: the classifier takes the value and the unit and nothing else,
  and its latency breakpoints are literals. The reduced dashboard cannot be given the
  calibration 150/250 (at 200 ms it answers nominal, the calibration says elevated), nor
  the extended dashboard the calibration 350/400 (at 375 ms it answers critical, the
  calibration says elevated).
\<close>

theorem latency_breakpoints_not_selectable:
  "getColorClasses (Finite 200) ''ms'' \<noteq> tier_classes (spec_tier 150 250 200)
   \<and> getColorClasses_ext (Finite 375) ''ms'' \<noteq> tier_classes (spec_tier 350 400 375)"
  by (simp add: getColorClasses_def getColorClasses_ext_def spec_tier_def)

text \<open>
  Claim C2, amended. The latency gauge has two breakpoints, fixed in each dashboard: for
  every finite value the reduced dashboard classifies by 350 and 400, the extended one by
  150 and 250, each by the three-tier rule of the specification at these breakpoints.
\<close>

theorem latency_breakpoints_fixed:
  "getColorClasses (Finite v) ''ms'' = tier_classes (spec_tier 350 400 v)
   \<and> getColorClasses_ext (Finite v) ''ms'' = tier_classes (spec_tier 150 250 v)"
  by (simp add: getColorClasses_def getColorClasses_ext_def spec_tier_def)

section \<open>Properties of the load cycle\<close>

lemma unauthorized_not_ok: "unauthorized r \<Longrightarrow> \<not> ok r"
  by (auto simp add: unauthorized_def ok_def)

lemma check_responses_cases:
  "check_responses rs = ([], Completed)
   \<or> check_responses rs = ([Navigate ''/documind''], Returned)
   \<or> (\<exists>n. check_responses rs = ([], Threw (HttpError n)))"
  by (induction rs) auto

lemma check_responses_redirect_iff:
  "check_responses rs = ([Navigate ''/documind''], Returned)
     \<longleftrightarrow> (\<exists>before r after. rs = before @ r # after \<and> (\<forall>p \<in> set before. ok p) \<and> unauthorized r)"
proof (induction rs)
  case Nil
  then show ?case by simp
next
  case (Cons a rs)
  show ?case
  proof (cases "unauthorized a")
    case True
    then have "a # rs = [] @ a # rs \<and> (\<forall>p \<in> set []. ok p) \<and> unauthorized a" by simp
    then have "\<exists>before r after. a # rs = before @ r # after \<and> (\<forall>p \<in> set before. ok p) \<and> unauthorized r"
      by blast
    with True show ?thesis by simp
  next
    case False
    show ?thesis
    proof (cases "ok a")
      case True
      have "(\<exists>before r after. a # rs = before @ r # after \<and> (\<forall>p \<in> set before. ok p) \<and> unauthorized r)
            \<longleftrightarrow> (\<exists>before r after. rs = before @ r # after \<and> (\<forall>p \<in> set before. ok p) \<and> unauthorized r)"
        (is "?L \<longleftrightarrow> ?R")
      proof
        assume ?L
        then obtain before r after where h: "a # rs = before @ r # after" "\<forall>p \<in> set before. ok p" "unauthorized r"
          by blast
        show ?R
        proof (cases before)
          case Nil
          with h False show ?thesis by simp
        next
          case (Cons b bs)
          with h have "rs = bs @ r # after \<and> (\<forall>p \<in> set bs. ok p) \<and> unauthorized r" by simp
          then show ?thesis by blast
        qed
      next
        assume ?R
        then obtain before r after where h: "rs = before @ r # after" "\<forall>p \<in> set before. ok p" "unauthorized r"
          by blast
        with True have "a # rs = (a # before) @ r # after \<and> (\<forall>p \<in> set (a # before). ok p) \<and> unauthorized r"
          by simp
        then show ?L by blast
      qed
      with True False Cons.IH show ?thesis by simp
    next
      case nok: False
      have "\<not> (\<exists>before r after. a # rs = before @ r # after \<and> (\<forall>p \<in> set before. ok p) \<and> unauthorized r)"
      proof
        assume "\<exists>before r after. a # rs = before @ r # after \<and> (\<forall>p \<in> set before. ok p) \<and> unauthorized r"
        then obtain before r after where h: "a # rs = before @ r # after" "\<forall>p \<in> set before. ok p" "unauthorized r"
          by blast
        show False
        proof (cases before)
          case Nil
          with h False show ?thesis by simp
        next
          case (Cons b bs)
          with h nok show ?thesis by simp
        qed
      qed
      with False nok show ?thesis by simp
    qed
  qed
qed

lemma promise_all2_Resolved:
  "promise_all2 p q = Resolved (a, b) \<longleftrightarrow> p = Resolved a \<and> q = Resolved b"
  by (cases p; cases q) auto

lemma load_cases:
  "getToken (auth_currentUser env) = Rejected
     \<and> loadDashboardData env =
     [SetLoading True, SetError [], ConsoleError TokenRejection, SetError failure_message,
      SetLoading False]
   \<or> (\<exists>token. getToken (auth_currentUser env) = Resolved token \<and> \<not> truthy token)
     \<and> loadDashboardData env = [SetLoading True, SetError [], Navigate ''/login'', SetLoading False]
   \<or> (\<exists>t e. loadDashboardData env =
         [SetLoading True, SetError [], Fetch users_url (bearer t), Fetch stats_url (bearer t),
          ConsoleError e, SetError failure_message, SetLoading False])
   \<or> (\<exists>t. loadDashboardData env =
         [SetLoading True, SetError [], Fetch users_url (bearer t), Fetch stats_url (bearer t),
          Navigate ''/documind'', SetLoading False])
   \<or> (\<exists>t r1 r2 u st.
         getToken (auth_currentUser env) = Resolved (Some t)
         \<and> fetch env users_url (bearer t) = Resolved r1
         \<and> fetch env stats_url (bearer t) = Resolved r2
         \<and> json r1 = Resolved u \<and> json r2 = Resolved st
         \<and> loadDashboardData env =
         [SetLoading True, SetError [], Fetch users_url (bearer t), Fetch stats_url (bearer t),
          SetUsersData u, SetStats st, SetLastUpdated (now env), SetLoading False])"
proof (cases "getToken (auth_currentUser env)")
  case Rejected
  then show ?thesis by (simp add: loadDashboardData_def try_block_def)
next
  case (Resolved token)
  show ?thesis
  proof (cases "truthy token")
    case False
    with Resolved show ?thesis
      by (cases token) (simp_all add: loadDashboardData_def try_block_def)
  next
    case True
    then obtain t where t: "token = Some t" "t \<noteq> []" by (cases token) auto
    show ?thesis
    proof (cases "promise_all2 (fetch env users_url (bearer t)) (fetch env stats_url (bearer t))")
      case Rejected
      with Resolved t show ?thesis by (auto simp add: loadDashboardData_def try_block_def)
    next
      case fetched: (Resolved rr)
      obtain r1 r2 where rr: "rr = (r1, r2)" by (cases rr)
      from fetched rr have f: "fetch env users_url (bearer t) = Resolved r1"
        "fetch env stats_url (bearer t) = Resolved r2"
        by (simp_all add: promise_all2_Resolved)
      consider (go) "check_responses [r1, r2] = ([], Completed)"
        | (redirect) "check_responses [r1, r2] = ([Navigate ''/documind''], Returned)"
        | (http) n where "check_responses [r1, r2] = ([], Threw (HttpError n))"
        using check_responses_cases [of "[r1, r2]"] by blast
      then show ?thesis
      proof cases
        case go
        show ?thesis
        proof (cases "promise_all2 (json r1) (json r2)")
          case Rejected
          with Resolved t f go show ?thesis
            by (auto simp add: loadDashboardData_def try_block_def simp del: check_responses.simps)
        next
          case parsed: (Resolved bb)
          obtain u st where bb: "bb = (u, st)" by (cases bb)
          from parsed bb have j: "json r1 = Resolved u" "json r2 = Resolved st"
            by (simp_all add: promise_all2_Resolved)
          with Resolved t f go show ?thesis
            by (auto simp add: loadDashboardData_def try_block_def simp del: check_responses.simps)
        qed
      next
        case redirect
        with Resolved t f show ?thesis
          by (auto simp add: loadDashboardData_def try_block_def simp del: check_responses.simps)
      next
        case http
        with Resolved t f show ?thesis
          by (auto simp add: loadDashboardData_def try_block_def simp del: check_responses.simps)
      qed
    qed
  qed
qed


lemma load_ext_cases:
  "getToken (auth_currentUser env) = Rejected
     \<and> loadDashboardData_ext env =
     [SetLoading True, SetError [], ConsoleError TokenRejection, SetError failure_message,
      SetLoading False]
   \<or> (\<exists>token. getToken (auth_currentUser env) = Resolved token \<and> \<not> truthy token)
     \<and> loadDashboardData_ext env =
       [SetLoading True, SetError [], Navigate ''/login'', SetLoading False]
   \<or> (\<exists>t e. loadDashboardData_ext env =
         [SetLoading True, SetError [], Fetch users_url (bearer t), Fetch sessions_url (bearer t),
          Fetch documents_url (bearer t), Fetch stats_url (bearer t),
          ConsoleError e, SetError failure_message, SetLoading False])
   \<or> (\<exists>t. loadDashboardData_ext env =
         [SetLoading True, SetError [], Fetch users_url (bearer t), Fetch sessions_url (bearer t),
          Fetch documents_url (bearer t), Fetch stats_url (bearer t),
          Navigate ''/documind'', SetLoading False])
   \<or> (\<exists>t r1 r2 r3 r4 u se d st.
         getToken (auth_currentUser env) = Resolved (Some t)
         \<and> fetch env users_url (bearer t) = Resolved r1
         \<and> fetch env sessions_url (bearer t) = Resolved r2
         \<and> fetch env documents_url (bearer t) = Resolved r3
         \<and> fetch env stats_url (bearer t) = Resolved r4
         \<and> json r1 = Resolved u \<and> json r2 = Resolved se
         \<and> json r3 = Resolved d \<and> json r4 = Resolved st
         \<and> loadDashboardData_ext env =
         [SetLoading True, SetError [], Fetch users_url (bearer t), Fetch sessions_url (bearer t),
          Fetch documents_url (bearer t), Fetch stats_url (bearer t),
          SetUsers u, SetSessions se, SetDocuments d, SetStats st,
          SetLastUpdated (now env), SetLoading False])"
proof (cases "getToken (auth_currentUser env)")
  case Rejected
  then show ?thesis by (simp add: loadDashboardData_ext_def try_block_ext_def)
next
  case (Resolved token)
  show ?thesis
  proof (cases "truthy token")
    case False
    with Resolved show ?thesis
      by (cases token) (simp_all add: loadDashboardData_ext_def try_block_ext_def)
  next
    case True
    then obtain t where t: "token = Some t" "t \<noteq> []" by (cases token) auto
    show ?thesis
    proof (cases "promise_all2 (fetch env users_url (bearer t))
                    (promise_all2 (fetch env sessions_url (bearer t))
                       (promise_all2 (fetch env documents_url (bearer t))
                                     (fetch env stats_url (bearer t))))")
      case Rejected
      with Resolved t show ?thesis
        by (auto simp add: loadDashboardData_ext_def try_block_ext_def)
    next
      case fetched: (Resolved rr)
      obtain r1 r2 r3 r4 where rr: "rr = (r1, r2, r3, r4)" by (cases rr) auto
      from fetched rr have f: "fetch env users_url (bearer t) = Resolved r1"
        "fetch env sessions_url (bearer t) = Resolved r2"
        "fetch env documents_url (bearer t) = Resolved r3"
        "fetch env stats_url (bearer t) = Resolved r4"
        by (simp_all add: promise_all2_Resolved)
      consider (go) "check_responses [r1, r2, r3, r4] = ([], Completed)"
        | (redirect) "check_responses [r1, r2, r3, r4] = ([Navigate ''/documind''], Returned)"
        | (http) n where "check_responses [r1, r2, r3, r4] = ([], Threw (HttpError n))"
        using check_responses_cases [of "[r1, r2, r3, r4]"] by blast
      then show ?thesis
      proof cases
        case go
        show ?thesis
        proof (cases "promise_all2 (json r1)
                        (promise_all2 (json r2) (promise_all2 (json r3) (json r4)))")
          case Rejected
          with Resolved t f go show ?thesis
            by (auto simp add: loadDashboardData_ext_def try_block_ext_def
                     simp del: check_responses.simps)
        next
          case parsed: (Resolved bb)
          obtain u se d st where bb: "bb = (u, se, d, st)" by (cases bb) auto
          from parsed bb have j: "json r1 = Resolved u" "json r2 = Resolved se"
            "json r3 = Resolved d" "json r4 = Resolved st"
            by (simp_all add: promise_all2_Resolved)
          with Resolved t f go show ?thesis
            by (auto simp add: loadDashboardData_ext_def try_block_ext_def
                     simp del: check_responses.simps)
        qed
      next
        case redirect
        with Resolved t f show ?thesis
          by (auto simp add: loadDashboardData_ext_def try_block_ext_def
                   simp del: check_responses.simps)
      next
        case http
        with Resolved t f show ?thesis
          by (auto simp add: loadDashboardData_ext_def try_block_ext_def
                   simp del: check_responses.simps)
      qed
    qed
  qed
qed

lemma failure_message_nonempty: "failure_message \<noteq> []"
  by (simp add: failure_message_def)

lemma load_outcomes:
  assumes "getToken (auth_currentUser env) = Resolved (Some t)" and "t \<noteq> []"
    and "fetch env users_url (bearer t) = Resolved r1"
    and "fetch env stats_url (bearer t) = Resolved r2"
  shows "outcomes (loadDashboardData env) =
     (case check_responses [r1, r2] of
        (effs, Returned) \<Rightarrow> [Unauthorized]
      | (effs, Threw e) \<Rightarrow> [RemoteError]
      | (effs, Completed) \<Rightarrow>
          (case promise_all2 (json r1) (json r2) of
             Rejected \<Rightarrow> [RemoteError]
           | Resolved b \<Rightarrow> [SnapshotReplaced]))"
  using assms check_responses_cases [of "[r1, r2]"] failure_message_nonempty
  by (auto simp add: loadDashboardData_def try_block_def
           simp del: check_responses.simps split: promise.splits)

lemma load_ext_outcomes:
  assumes "getToken (auth_currentUser env) = Resolved (Some t)" and "t \<noteq> []"
    and "fetch env users_url (bearer t) = Resolved r1"
    and "fetch env sessions_url (bearer t) = Resolved r2"
    and "fetch env documents_url (bearer t) = Resolved r3"
    and "fetch env stats_url (bearer t) = Resolved r4"
  shows "outcomes (loadDashboardData_ext env) =
     (case check_responses [r1, r2, r3, r4] of
        (effs, Returned) \<Rightarrow> [Unauthorized]
      | (effs, Threw e) \<Rightarrow> [RemoteError]
      | (effs, Completed) \<Rightarrow>
          (case promise_all2 (json r1)
                  (promise_all2 (json r2) (promise_all2 (json r3) (json r4))) of
             Rejected \<Rightarrow> [RemoteError]
           | Resolved b \<Rightarrow> [SnapshotReplaced]))"
  using assms check_responses_cases [of "[r1, r2, r3, r4]"] failure_message_nonempty
  by (auto simp add: loadDashboardData_ext_def try_block_ext_def
           simp del: check_responses.simps split: promise.splits)

lemma outcome_redirect_iff:
  "(case check_responses rs of
        (effs, Returned) \<Rightarrow> [Unauthorized]
      | (effs, Threw e) \<Rightarrow> [RemoteError]
      | (effs, Completed) \<Rightarrow> (case p of Rejected \<Rightarrow> [RemoteError] | Resolved b \<Rightarrow> [SnapshotReplaced]))
     = [Unauthorized]
   \<longleftrightarrow> check_responses rs = ([Navigate ''/documind''], Returned)"
  using check_responses_cases [of rs] by (auto split: promise.splits)


text \<open>
  Claim C1, as stated, fails: with a token, the users endpoint answering 500 and the stats
  endpoint answering 401, the loop throws at the first response before it looks at the
  second, and the outcome of both dashboards is \<open>RemoteError\<close>, not \<open>Unauthorized\<close>.
\<close>

theorem later_unauthorized_response_ignored:
  "getToken (auth_currentUser env_500_then_401) = Resolved (Some ''tok'')
   \<and> fetch env_500_then_401 users_url (bearer ''tok'') = answer 500 (Resolved 0)
   \<and> fetch env_500_then_401 stats_url (bearer ''tok'') = answer 401 (Resolved 0)
   \<and> outcomes (loadDashboardData env_500_then_401) = [RemoteError]
   \<and> outcomes (loadDashboardData_ext env_500_then_401) = [RemoteError]"
  by (simp add: loadDashboardData_def try_block_def loadDashboardData_ext_def try_block_ext_def
        env_500_then_401_def getToken_def moderator_user_def fetch_500_then_401_def answer_def
        users_url_def stats_url_def sessions_url_def documents_url_def API_BASE_URL_def
        unauthorized_def ok_def failure_message_def)

text \<open>
  Claim C1, amended. In a cycle in which a non-empty token was obtained and every request
  was answered, the outcome is \<open>Unauthorized\<close> exactly when some response carries 401 or
  403 and every response before it in the array (users, then sessions and documents in
  the extended dashboard, then stats) is a success; the responses after it play no part.
\<close>

theorem authorization_precedence_in_order:
  assumes "getToken (auth_currentUser env) = Resolved (Some t)" and "t \<noteq> []"
  shows "(fetch env users_url (bearer t) = Resolved r1
          \<and> fetch env stats_url (bearer t) = Resolved r4
          \<longrightarrow> (outcomes (loadDashboardData env) = [Unauthorized]
                \<longleftrightarrow> (\<exists>before r after. [r1, r4] = before @ r # after
                       \<and> (\<forall>p \<in> set before. ok p) \<and> unauthorized r)))
       \<and> (fetch env users_url (bearer t) = Resolved r1
          \<and> fetch env sessions_url (bearer t) = Resolved r2
          \<and> fetch env documents_url (bearer t) = Resolved r3
          \<and> fetch env stats_url (bearer t) = Resolved r4
          \<longrightarrow> (outcomes (loadDashboardData_ext env) = [Unauthorized]
                \<longleftrightarrow> (\<exists>before r after. [r1, r2, r3, r4] = before @ r # after
                       \<and> (\<forall>p \<in> set before. ok p) \<and> unauthorized r)))"
proof (intro conjI impI)
  assume a: "fetch env users_url (bearer t) = Resolved r1
          \<and> fetch env stats_url (bearer t) = Resolved r4"
  have "outcomes (loadDashboardData env) = [Unauthorized]
      \<longleftrightarrow> check_responses [r1, r4] = ([Navigate ''/documind''], Returned)"
    unfolding load_outcomes [OF assms conjunct1 [OF a] conjunct2 [OF a]]
    by (rule outcome_redirect_iff)
  then show "outcomes (loadDashboardData env) = [Unauthorized]
                \<longleftrightarrow> (\<exists>before r after. [r1, r4] = before @ r # after
                       \<and> (\<forall>p \<in> set before. ok p) \<and> unauthorized r)"
    by (simp only: check_responses_redirect_iff)
next
  assume a: "fetch env users_url (bearer t) = Resolved r1
          \<and> fetch env sessions_url (bearer t) = Resolved r2
          \<and> fetch env documents_url (bearer t) = Resolved r3
          \<and> fetch env stats_url (bearer t) = Resolved r4"
  then have f: "fetch env users_url (bearer t) = Resolved r1"
    "fetch env sessions_url (bearer t) = Resolved r2"
    "fetch env documents_url (bearer t) = Resolved r3"
    "fetch env stats_url (bearer t) = Resolved r4"
    by simp_all
  have "outcomes (loadDashboardData_ext env) = [Unauthorized]
      \<longleftrightarrow> check_responses [r1, r2, r3, r4] = ([Navigate ''/documind''], Returned)"
    unfolding load_ext_outcomes [OF assms f]
    by (rule outcome_redirect_iff)
  then show "outcomes (loadDashboardData_ext env) = [Unauthorized]
                \<longleftrightarrow> (\<exists>before r after. [r1, r2, r3, r4] = before @ r # after
                       \<and> (\<forall>p \<in> set before. ok p) \<and> unauthorized r)"
    by (simp only: check_responses_redirect_iff)
qed

lemma env_200_then_403_token:
  "getToken (auth_currentUser env_200_then_403) = Resolved (Some ''tok'')"
  by (simp add: env_200_then_403_def getToken_def moderator_user_def)

lemma env_200_then_403_fetch:
  "fetch env_200_then_403 users_url (bearer ''tok'') = Resolved \<lparr>status = 200, json = Resolved 1\<rparr>"
  "fetch env_200_then_403 sessions_url (bearer ''tok'') = Resolved \<lparr>status = 403, json = Resolved 0\<rparr>"
  "fetch env_200_then_403 documents_url (bearer ''tok'') = Resolved \<lparr>status = 403, json = Resolved 0\<rparr>"
  "fetch env_200_then_403 stats_url (bearer ''tok'') = Resolved \<lparr>status = 403, json = Resolved 0\<rparr>"
  by (simp_all add: env_200_then_403_def fetch_200_then_403_def answer_def
        users_url_def stats_url_def sessions_url_def documents_url_def API_BASE_URL_def)

theorem authorization_precedence_in_order_witness:
  "getToken (auth_currentUser env_200_then_403) = Resolved (Some ''tok'')
   \<and> ''tok'' \<noteq> []
   \<and> fetch env_200_then_403 users_url (bearer ''tok'') = answer 200 (Resolved 1)
   \<and> fetch env_200_then_403 sessions_url (bearer ''tok'') = answer 403 (Resolved 0)
   \<and> fetch env_200_then_403 documents_url (bearer ''tok'') = answer 403 (Resolved 0)
   \<and> fetch env_200_then_403 stats_url (bearer ''tok'') = answer 403 (Resolved 0)
   \<and> outcomes (loadDashboardData env_200_then_403) = [Unauthorized]
   \<and> outcomes (loadDashboardData_ext env_200_then_403) = [Unauthorized]"
proof -
  let ?a = "\<lparr>status = 200, json = Resolved (1::nat)\<rparr>"
  let ?b = "\<lparr>status = 403, json = Resolved (0::nat)\<rparr>"
  have ne: "''tok'' \<noteq> []" by simp
  note inst = authorization_precedence_in_order [OF env_200_then_403_token ne, of ?a ?b ?b ?b]
  have two: "\<exists>before r after. [?a, ?b] = before @ r # after
               \<and> (\<forall>p \<in> set before. ok p) \<and> unauthorized r"
    by (rule exI [of _ "[?a]"], rule exI [of _ ?b], rule exI [of _ "[]"])
       (simp add: ok_def unauthorized_def)
  have four: "\<exists>before r after. [?a, ?b, ?b, ?b] = before @ r # after
               \<and> (\<forall>p \<in> set before. ok p) \<and> unauthorized r"
    by (rule exI [of _ "[?a]"], rule exI [of _ ?b], rule exI [of _ "[?b, ?b]"])
       (simp add: ok_def unauthorized_def)
  from inst two four env_200_then_403_fetch
  have "outcomes (loadDashboardData env_200_then_403) = [Unauthorized]
        \<and> outcomes (loadDashboardData_ext env_200_then_403) = [Unauthorized]"
    by blast
  with env_200_then_403_token env_200_then_403_fetch show ?thesis
    by (simp add: answer_def)
qed

text \<open>
  Claim C6. When \<open>getToken\<close> resolves to no token (\<open>null\<close>, or the empty string, which
  the test \<open>!token\<close> treats alike), the cycle is: loading on, error cleared, redirect to
  \<open>/login\<close>, loading off. Its outcome is \<open>Unauthenticated\<close> and it issues no request.
\<close>

theorem no_token_no_requests:
  assumes "getToken (auth_currentUser env) = Resolved token" and "\<not> truthy token"
  shows "loadDashboardData env = [SetLoading True, SetError [], Navigate ''/login'', SetLoading False]
    \<and> loadDashboardData_ext env = [SetLoading True, SetError [], Navigate ''/login'', SetLoading False]
    \<and> outcomes (loadDashboardData env) = [Unauthenticated]
    \<and> outcomes (loadDashboardData_ext env) = [Unauthenticated]
    \<and> requests (loadDashboardData env) = []
    \<and> requests (loadDashboardData_ext env) = []"
  using assms
  by (cases token)
     (simp_all add: loadDashboardData_def try_block_def loadDashboardData_ext_def try_block_ext_def)

theorem no_token_no_requests_witness:
  "getToken (auth_currentUser env_signed_out) = Resolved None \<and> \<not> truthy None
   \<and> outcomes (loadDashboardData env_signed_out) = [Unauthenticated]
   \<and> requests (loadDashboardData env_signed_out) = []"
proof -
  have t: "getToken (auth_currentUser env_signed_out) = Resolved None"
    by (simp add: env_signed_out_def getToken_def)
  have f: "\<not> truthy None" by simp
  from no_token_no_requests [OF t f] t f show ?thesis by simp
qed

lemma run_keeps_loading:
  "\<forall>e \<in> set es. \<forall>c. e \<noteq> SetLoading c \<Longrightarrow> loading_d (run s es) = loading_d s"
proof (induction es arbitrary: s)
  case Nil
  then show ?case by simp
next
  case (Cons e es)
  then have "loading_d (apply_effect s e) = loading_d s" by (cases e) auto
  with Cons show ?case by simp
qed

lemma run_ext_keeps_loading:
  "\<forall>e \<in> set es. \<forall>c. e \<noteq> SetLoading c \<Longrightarrow> loading_x (run_ext s es) = loading_x s"
proof (induction es arbitrary: s)
  case Nil
  then show ?case by simp
next
  case (Cons e es)
  then have "loading_x (apply_effect_ext s e) = loading_x s" by (cases e) auto
  with Cons show ?case by simp
qed

lemma take_bracket:
  assumes "0 < k" and "k < length (x # mid @ [y])"
  shows "take k (x # mid @ [y]) = x # take (k - 1) mid"
proof -
  from assms obtain j where k: "k = Suc j" and j: "j \<le> length mid" by (cases k) auto
  then show ?thesis by simp
qed

lemma loading_bracket:
  assumes "effs = SetLoading True # mid @ [SetLoading b]"
    and "\<forall>e \<in> set mid. \<forall>c. e \<noteq> SetLoading c"
    and "0 < k" and "k < length effs"
  shows "loading_d (run s (take k effs))"
proof -
  from assms have "take k effs = SetLoading True # take (k - 1) mid"
    by (simp only: take_bracket)
  moreover have "\<forall>e \<in> set (take (k - 1) mid). \<forall>c. e \<noteq> SetLoading c"
    using assms(2) by (meson in_set_takeD)
  ultimately show ?thesis by (simp add: run_keeps_loading)
qed

lemma loading_bracket_ext:
  assumes "effs = SetLoading True # mid @ [SetLoading b]"
    and "\<forall>e \<in> set mid. \<forall>c. e \<noteq> SetLoading c"
    and "0 < k" and "k < length effs"
  shows "loading_x (run_ext s (take k effs))"
proof -
  from assms have "take k effs = SetLoading True # take (k - 1) mid"
    by (simp only: take_bracket)
  moreover have "\<forall>e \<in> set (take (k - 1) mid). \<forall>c. e \<noteq> SetLoading c"
    using assms(2) by (meson in_set_takeD)
  ultimately show ?thesis by (simp add: run_ext_keeps_loading)
qed

lemma load_bracket:
  "loadDashboardData env =
     SetLoading True # butlast (tl (loadDashboardData env)) @ [SetLoading False]
   \<and> (\<forall>e \<in> set (butlast (tl (loadDashboardData env))). \<forall>c. e \<noteq> SetLoading c)
   \<and> outcomes (butlast (loadDashboardData env)) = outcomes (loadDashboardData env)"
  using load_cases [of env] by (elim disjE exE conjE) simp_all

lemma load_ext_bracket:
  "loadDashboardData_ext env =
     SetLoading True # butlast (tl (loadDashboardData_ext env)) @ [SetLoading False]
   \<and> (\<forall>e \<in> set (butlast (tl (loadDashboardData_ext env))). \<forall>c. e \<noteq> SetLoading c)
   \<and> outcomes (butlast (loadDashboardData_ext env)) = outcomes (loadDashboardData_ext env)"
  using load_ext_cases [of env] by (elim disjE exE conjE) simp_all

lemma load_one_outcome:
  "outcomes (loadDashboardData env) \<in>
     set [[Unauthenticated], [SnapshotReplaced], [Unauthorized], [RemoteError]]"
  using load_cases [of env] failure_message_nonempty by (elim disjE exE conjE) simp_all

lemma load_ext_one_outcome:
  "outcomes (loadDashboardData_ext env) \<in>
     set [[Unauthenticated], [SnapshotReplaced], [Unauthorized], [RemoteError]]"
  using load_ext_cases [of env] failure_message_nonempty by (elim disjE exE conjE) simp_all

lemma load_token_outcome:
  "getToken (auth_currentUser env) = Resolved (Some t) \<Longrightarrow> t \<noteq> [] \<Longrightarrow>
   outcomes (loadDashboardData env) \<in> set [[SnapshotReplaced], [Unauthorized], [RemoteError]]"
  using load_cases [of env] failure_message_nonempty by (elim disjE exE conjE) auto

lemma load_ext_token_outcome:
  "getToken (auth_currentUser env) = Resolved (Some t) \<Longrightarrow> t \<noteq> [] \<Longrightarrow>
   outcomes (loadDashboardData_ext env) \<in> set [[SnapshotReplaced], [Unauthorized], [RemoteError]]"
  using load_ext_cases [of env] failure_message_nonempty by (elim disjE exE conjE) auto

lemma load_final_loading: "\<not> loading_d (run s (loadDashboardData env))"
  using load_cases [of env] by (elim disjE exE conjE) simp_all

lemma load_ext_final_loading: "\<not> loading_x (run_ext s (loadDashboardData_ext env))"
  using load_ext_cases [of env] by (elim disjE exE conjE) simp_all

lemma load_snapshot:
  "(outcomes (loadDashboardData env) \<noteq> [SnapshotReplaced] \<longrightarrow>
      usersData (run s (loadDashboardData env)) = usersData s
      \<and> stats (run s (loadDashboardData env)) = stats s
      \<and> lastUpdated (run s (loadDashboardData env)) = lastUpdated s)
   \<and> (outcomes (loadDashboardData env) = [SnapshotReplaced] \<longrightarrow>
      (\<exists>t r1 r2 u st.
          getToken (auth_currentUser env) = Resolved (Some t)
          \<and> fetch env users_url (bearer t) = Resolved r1
          \<and> fetch env stats_url (bearer t) = Resolved r2
          \<and> json r1 = Resolved u \<and> json r2 = Resolved st
          \<and> usersData (run s (loadDashboardData env)) = Some u
          \<and> stats (run s (loadDashboardData env)) = Some st
          \<and> lastUpdated (run s (loadDashboardData env)) = Some (now env)))"
  using load_cases [of env] failure_message_nonempty
  by (elim disjE exE conjE) auto

lemma load_ext_snapshot:
  "(outcomes (loadDashboardData_ext env) \<noteq> [SnapshotReplaced] \<longrightarrow>
      users (run_ext s (loadDashboardData_ext env)) = users s
      \<and> sessions (run_ext s (loadDashboardData_ext env)) = sessions s
      \<and> documents (run_ext s (loadDashboardData_ext env)) = documents s
      \<and> stats_x (run_ext s (loadDashboardData_ext env)) = stats_x s
      \<and> lastUpdated_x (run_ext s (loadDashboardData_ext env)) = lastUpdated_x s)
   \<and> (outcomes (loadDashboardData_ext env) = [SnapshotReplaced] \<longrightarrow>
      (\<exists>t r1 r2 r3 r4 u se d st.
          getToken (auth_currentUser env) = Resolved (Some t)
          \<and> fetch env users_url (bearer t) = Resolved r1
          \<and> fetch env sessions_url (bearer t) = Resolved r2
          \<and> fetch env documents_url (bearer t) = Resolved r3
          \<and> fetch env stats_url (bearer t) = Resolved r4
          \<and> json r1 = Resolved u \<and> json r2 = Resolved se
          \<and> json r3 = Resolved d \<and> json r4 = Resolved st
          \<and> users (run_ext s (loadDashboardData_ext env)) = u
          \<and> sessions (run_ext s (loadDashboardData_ext env)) = se
          \<and> documents (run_ext s (loadDashboardData_ext env)) = d
          \<and> stats_x (run_ext s (loadDashboardData_ext env)) = Some st
          \<and> lastUpdated_x (run_ext s (loadDashboardData_ext env)) = Some (now env)))"
  using load_ext_cases [of env] failure_message_nonempty
  by (elim disjE exE conjE) auto

text \<open>
  Claim C5. A cycle whose outcome is not a replaced snapshot (so: \<open>Unauthenticated\<close>,
  \<open>Unauthorized\<close> or \<open>RemoteError\<close>, a body that fails to parse included) leaves every
  snapshot cell as it was; a cycle whose outcome is a replaced snapshot sets every snapshot
  cell, to the parsed bodies of this cycle's responses and to the current time.
\<close>

theorem failed_cycle_keeps_snapshot:
  "((outcomes (loadDashboardData env) \<noteq> [SnapshotReplaced] \<longrightarrow>
      usersData (run s (loadDashboardData env)) = usersData s
      \<and> stats (run s (loadDashboardData env)) = stats s
      \<and> lastUpdated (run s (loadDashboardData env)) = lastUpdated s)
   \<and> (outcomes (loadDashboardData env) = [SnapshotReplaced] \<longrightarrow>
      (\<exists>t r1 r2 u st.
          getToken (auth_currentUser env) = Resolved (Some t)
          \<and> fetch env users_url (bearer t) = Resolved r1
          \<and> fetch env stats_url (bearer t) = Resolved r2
          \<and> json r1 = Resolved u \<and> json r2 = Resolved st
          \<and> usersData (run s (loadDashboardData env)) = Some u
          \<and> stats (run s (loadDashboardData env)) = Some st
          \<and> lastUpdated (run s (loadDashboardData env)) = Some (now env))))
   \<and> ((outcomes (loadDashboardData_ext env) \<noteq> [SnapshotReplaced] \<longrightarrow>
      users (run_ext sx (loadDashboardData_ext env)) = users sx
      \<and> sessions (run_ext sx (loadDashboardData_ext env)) = sessions sx
      \<and> documents (run_ext sx (loadDashboardData_ext env)) = documents sx
      \<and> stats_x (run_ext sx (loadDashboardData_ext env)) = stats_x sx
      \<and> lastUpdated_x (run_ext sx (loadDashboardData_ext env)) = lastUpdated_x sx)
   \<and> (outcomes (loadDashboardData_ext env) = [SnapshotReplaced] \<longrightarrow>
      (\<exists>t r1 r2 r3 r4 u se d st.
          getToken (auth_currentUser env) = Resolved (Some t)
          \<and> fetch env users_url (bearer t) = Resolved r1
          \<and> fetch env sessions_url (bearer t) = Resolved r2
          \<and> fetch env documents_url (bearer t) = Resolved r3
          \<and> fetch env stats_url (bearer t) = Resolved r4
          \<and> json r1 = Resolved u \<and> json r2 = Resolved se
          \<and> json r3 = Resolved d \<and> json r4 = Resolved st
          \<and> users (run_ext sx (loadDashboardData_ext env)) = u
          \<and> sessions (run_ext sx (loadDashboardData_ext env)) = se
          \<and> documents (run_ext sx (loadDashboardData_ext env)) = d
          \<and> stats_x (run_ext sx (loadDashboardData_ext env)) = Some st
          \<and> lastUpdated_x (run_ext sx (loadDashboardData_ext env)) = Some (now env))))"
  using load_snapshot [of env s] load_ext_snapshot [of env sx] by (rule conjI)

lemma outcomes_env_bad_body:
  "outcomes (loadDashboardData env_bad_body) = [RemoteError]"
  "outcomes (loadDashboardData_ext env_bad_body) = [RemoteError]"
  by (simp_all add: loadDashboardData_def try_block_def loadDashboardData_ext_def
        try_block_ext_def env_bad_body_def getToken_def moderator_user_def fetch_bad_body_def
        answer_def users_url_def stats_url_def sessions_url_def documents_url_def
        API_BASE_URL_def unauthorized_def ok_def failure_message_def)

lemma outcomes_env_all_200:
  "outcomes (loadDashboardData env_all_200) = [SnapshotReplaced]"
  "outcomes (loadDashboardData_ext env_all_200) = [SnapshotReplaced]"
  by (simp_all add: loadDashboardData_def try_block_def loadDashboardData_ext_def
        try_block_ext_def env_all_200_def getToken_def moderator_user_def fetch_all_200_def
        answer_def users_url_def stats_url_def sessions_url_def documents_url_def
        API_BASE_URL_def unauthorized_def ok_def failure_message_def)

lemma env_all_200_token:
  "getToken (auth_currentUser env_all_200) = Resolved (Some ''tok'')"
  by (simp add: env_all_200_def getToken_def moderator_user_def)

lemma env_all_200_fetch:
  "fetch env_all_200 users_url h = Resolved \<lparr>status = 200, json = Resolved 1\<rparr>"
  "fetch env_all_200 sessions_url h = Resolved \<lparr>status = 200, json = Resolved 2\<rparr>"
  "fetch env_all_200 documents_url h = Resolved \<lparr>status = 200, json = Resolved 2\<rparr>"
  "fetch env_all_200 stats_url h = Resolved \<lparr>status = 200, json = Resolved 2\<rparr>"
  by (simp_all add: env_all_200_def fetch_all_200_def answer_def
        users_url_def stats_url_def sessions_url_def documents_url_def API_BASE_URL_def)

theorem failed_cycle_keeps_snapshot_witness:
  "outcomes (loadDashboardData env_bad_body) \<noteq> [SnapshotReplaced]
   \<and> usersData (run earlier_dashboard (loadDashboardData env_bad_body)) = Some 5
   \<and> stats (run earlier_dashboard (loadDashboardData env_bad_body)) = Some 6
   \<and> lastUpdated (run earlier_dashboard (loadDashboardData env_bad_body)) = Some 3
   \<and> outcomes (loadDashboardData_ext env_bad_body) \<noteq> [SnapshotReplaced]
   \<and> users (run_ext earlier_dashboard_ext (loadDashboardData_ext env_bad_body)) = 5
   \<and> sessions (run_ext earlier_dashboard_ext (loadDashboardData_ext env_bad_body)) = 8
   \<and> documents (run_ext earlier_dashboard_ext (loadDashboardData_ext env_bad_body)) = 9
   \<and> stats_x (run_ext earlier_dashboard_ext (loadDashboardData_ext env_bad_body)) = Some 6
   \<and> lastUpdated_x (run_ext earlier_dashboard_ext (loadDashboardData_ext env_bad_body)) = Some 3
   \<and> outcomes (loadDashboardData env_all_200) = [SnapshotReplaced]
   \<and> usersData (run earlier_dashboard (loadDashboardData env_all_200)) = Some 1
   \<and> stats (run earlier_dashboard (loadDashboardData env_all_200)) = Some 2
   \<and> lastUpdated (run earlier_dashboard (loadDashboardData env_all_200)) = Some 7"
proof -
  note bad = failed_cycle_keeps_snapshot [of env_bad_body earlier_dashboard earlier_dashboard_ext]
  note good = failed_cycle_keeps_snapshot [of env_all_200 earlier_dashboard earlier_dashboard_ext]
  have kept: "usersData (run earlier_dashboard (loadDashboardData env_bad_body)) = Some 5
      \<and> stats (run earlier_dashboard (loadDashboardData env_bad_body)) = Some 6
      \<and> lastUpdated (run earlier_dashboard (loadDashboardData env_bad_body)) = Some 3"
    using bad outcomes_env_bad_body by (simp add: earlier_dashboard_def)
  have kept_ext: "users (run_ext earlier_dashboard_ext (loadDashboardData_ext env_bad_body)) = 5
      \<and> sessions (run_ext earlier_dashboard_ext (loadDashboardData_ext env_bad_body)) = 8
      \<and> documents (run_ext earlier_dashboard_ext (loadDashboardData_ext env_bad_body)) = 9
      \<and> stats_x (run_ext earlier_dashboard_ext (loadDashboardData_ext env_bad_body)) = Some 6
      \<and> lastUpdated_x (run_ext earlier_dashboard_ext (loadDashboardData_ext env_bad_body)) = Some 3"
    using bad outcomes_env_bad_body by (simp add: earlier_dashboard_ext_def)
  have replaced: "usersData (run earlier_dashboard (loadDashboardData env_all_200)) = Some 1
      \<and> stats (run earlier_dashboard (loadDashboardData env_all_200)) = Some 2
      \<and> lastUpdated (run earlier_dashboard (loadDashboardData env_all_200)) = Some 7"
    using good outcomes_env_all_200 env_all_200_token env_all_200_fetch
    by (auto simp add: env_all_200_def)
  from kept kept_ext replaced outcomes_env_bad_body outcomes_env_all_200 show ?thesis
    by simp
qed

text \<open>
  Claim C7, as stated, fails: a cycle without a token ends with the redirect to the sign-in
  page, which is none of the three outcomes.
\<close>

theorem no_token_cycle_has_none_of_three:
  "outcomes (loadDashboardData env_signed_out) = [Unauthenticated]
   \<and> outcomes (loadDashboardData env_signed_out)
       \<notin> set [[SnapshotReplaced], [Unauthorized], [RemoteError]]
   \<and> outcomes (loadDashboardData_ext env_signed_out) = [Unauthenticated]
   \<and> outcomes (loadDashboardData_ext env_signed_out)
       \<notin> set [[SnapshotReplaced], [Unauthorized], [RemoteError]]"
  by (simp add: loadDashboardData_def try_block_def loadDashboardData_ext_def
        try_block_ext_def env_signed_out_def getToken_def)

text \<open>
  Claim C7, amended. Every cycle has exactly one of the four outcomes \<open>Unauthenticated\<close>,
  snapshot replaced, \<open>Unauthorized\<close>, \<open>RemoteError\<close>; a cycle in which a non-empty token
  was obtained has exactly one of the last three. The loading flag is true after the first
  effect of the cycle and stays true up to the last effect, which turns it off; the
  outcome is produced before that last effect.
\<close>

theorem one_outcome_per_cycle:
  "(outcomes (loadDashboardData env)
      \<in> set [[Unauthenticated], [SnapshotReplaced], [Unauthorized], [RemoteError]]
    \<and> (getToken (auth_currentUser env) = Resolved (Some t) \<and> t \<noteq> [] \<longrightarrow>
         outcomes (loadDashboardData env)
           \<in> set [[SnapshotReplaced], [Unauthorized], [RemoteError]])
    \<and> (0 < k \<and> k < length (loadDashboardData env) \<longrightarrow>
         loading_d (run s (take k (loadDashboardData env))))
    \<and> outcomes (butlast (loadDashboardData env)) = outcomes (loadDashboardData env)
    \<and> \<not> loading_d (run s (loadDashboardData env)))
   \<and> (outcomes (loadDashboardData_ext env)
      \<in> set [[Unauthenticated], [SnapshotReplaced], [Unauthorized], [RemoteError]]
    \<and> (getToken (auth_currentUser env) = Resolved (Some t) \<and> t \<noteq> [] \<longrightarrow>
         outcomes (loadDashboardData_ext env)
           \<in> set [[SnapshotReplaced], [Unauthorized], [RemoteError]])
    \<and> (0 < k \<and> k < length (loadDashboardData_ext env) \<longrightarrow>
         loading_x (run_ext sx (take k (loadDashboardData_ext env))))
    \<and> outcomes (butlast (loadDashboardData_ext env)) = outcomes (loadDashboardData_ext env)
    \<and> \<not> loading_x (run_ext sx (loadDashboardData_ext env)))"
proof (intro conjI impI)
  show "outcomes (loadDashboardData env)
      \<in> set [[Unauthenticated], [SnapshotReplaced], [Unauthorized], [RemoteError]]"
    by (rule load_one_outcome)
  show "outcomes (loadDashboardData_ext env)
      \<in> set [[Unauthenticated], [SnapshotReplaced], [Unauthorized], [RemoteError]]"
    by (rule load_ext_one_outcome)
  show "outcomes (butlast (loadDashboardData env)) = outcomes (loadDashboardData env)"
    using load_bracket [of env] by blast
  show "outcomes (butlast (loadDashboardData_ext env)) = outcomes (loadDashboardData_ext env)"
    using load_ext_bracket [of env] by blast
  show "\<not> loading_d (run s (loadDashboardData env))"
    by (rule load_final_loading)
  show "\<not> loading_x (run_ext sx (loadDashboardData_ext env))"
    by (rule load_ext_final_loading)
next
  assume "getToken (auth_currentUser env) = Resolved (Some t) \<and> t \<noteq> []"
  then show "outcomes (loadDashboardData env)
           \<in> set [[SnapshotReplaced], [Unauthorized], [RemoteError]]"
    by (blast intro: load_token_outcome)
next
  assume "getToken (auth_currentUser env) = Resolved (Some t) \<and> t \<noteq> []"
  then show "outcomes (loadDashboardData_ext env)
           \<in> set [[SnapshotReplaced], [Unauthorized], [RemoteError]]"
    by (blast intro: load_ext_token_outcome)
next
  assume k: "0 < k \<and> k < length (loadDashboardData env)"
  from load_bracket [of env]
  have "loadDashboardData env =
          SetLoading True # butlast (tl (loadDashboardData env)) @ [SetLoading False]"
    and "\<forall>e \<in> set (butlast (tl (loadDashboardData env))). \<forall>c. e \<noteq> SetLoading c"
    by blast+
  then show "loading_d (run s (take k (loadDashboardData env)))"
    using k by (blast intro: loading_bracket)
next
  assume k: "0 < k \<and> k < length (loadDashboardData_ext env)"
  from load_ext_bracket [of env]
  have "loadDashboardData_ext env =
          SetLoading True # butlast (tl (loadDashboardData_ext env)) @ [SetLoading False]"
    and "\<forall>e \<in> set (butlast (tl (loadDashboardData_ext env))). \<forall>c. e \<noteq> SetLoading c"
    by blast+
  then show "loading_x (run_ext sx (take k (loadDashboardData_ext env)))"
    using k by (blast intro: loading_bracket_ext)
qed

lemma load_env_all_200:
  "loadDashboardData env_all_200 =
     [SetLoading True, SetError [], Fetch users_url ''Bearer tok'', Fetch stats_url ''Bearer tok'',
      SetUsersData 1, SetStats 2, SetLastUpdated 7, SetLoading False]"
  by (simp add: loadDashboardData_def try_block_def env_all_200_def getToken_def
        moderator_user_def fetch_all_200_def answer_def users_url_def stats_url_def
        API_BASE_URL_def unauthorized_def ok_def bearer_def)

theorem one_outcome_per_cycle_witness:
  "getToken (auth_currentUser env_all_200) = Resolved (Some ''tok'') \<and> ''tok'' \<noteq> []
   \<and> outcomes (loadDashboardData env_all_200)
       \<in> set [[SnapshotReplaced], [Unauthorized], [RemoteError]]
   \<and> (0::nat) < 7 \<and> 7 < length (loadDashboardData env_all_200)
   \<and> loading_d (run initial_dashboard (take 7 (loadDashboardData env_all_200)))
   \<and> \<not> loading_d (run initial_dashboard (loadDashboardData env_all_200))"
  using one_outcome_per_cycle [of env_all_200 "''tok''" 7 initial_dashboard earlier_dashboard_ext]
        env_all_200_token load_env_all_200
  by simp

end
